theory Spec2Isabelle
  imports Complex_Main "HOL-Library.AList" "HOL-Library.Sublist" "HOL-Library.Word"
begin

section \<open>Data carried by the relay\<close>

text \<open>
  JavaScript numbers that hold instants and 32-bit protobuf fields are modelled as \<open>int\<close>.
  A number that the code computes with is a \<open>js_number\<close>: a finite value, NaN or an
  infinity. On finite doubles the sign of the computed difference \<open>b - a\<close> is the sign of
  the exact difference, which is all the code uses, so finite values are reals. Doubles that
  are only passed on are reals. \<open>Date.now()\<close> is a parameter \<open>now\<close> of every function
  that reads the clock, one parameter per read.
\<close>

datatype js_number = Finite real | NaN | PosInfinity | NegInfinity

text \<open>The operators \<open>-\<close>, \<open><\<close> and \<open><=\<close> of JavaScript on numbers.\<close>

fun js_minus :: "js_number \<Rightarrow> js_number \<Rightarrow> js_number" where
  "js_minus (Finite x) (Finite y) = Finite (x - y)"
| "js_minus NaN _ = NaN"
| "js_minus _ NaN = NaN"
| "js_minus PosInfinity PosInfinity = NaN"
| "js_minus NegInfinity NegInfinity = NaN"
| "js_minus PosInfinity _ = PosInfinity"
| "js_minus NegInfinity _ = NegInfinity"
| "js_minus (Finite x) PosInfinity = NegInfinity"
| "js_minus (Finite x) NegInfinity = PosInfinity"

fun js_less :: "js_number \<Rightarrow> js_number \<Rightarrow> bool" where
  "js_less (Finite x) (Finite y) = (x < y)"
| "js_less NaN _ = False"
| "js_less _ NaN = False"
| "js_less _ NegInfinity = False"
| "js_less PosInfinity _ = False"
| "js_less NegInfinity _ = True"
| "js_less (Finite x) PosInfinity = True"

fun js_le :: "js_number \<Rightarrow> js_number \<Rightarrow> bool" where
  "js_le (Finite x) (Finite y) = (x \<le> y)"
| "js_le NaN _ = False"
| "js_le _ NaN = False"
| "js_le NegInfinity _ = True"
| "js_le _ PosInfinity = True"
| "js_le PosInfinity _ = False"
| "js_le (Finite x) NegInfinity = False"

text \<open>
  A 64-bit integer field as protobufjs hands it over: a JavaScript number, or an object of
  the class \<open>Long\<close> where that class is available. \<open>v !== 0\<close> is false for the number
  0 only: an object is never strictly equal to a number.
\<close>

datatype js_int64 = AsNumber int | AsLong int

fun int64_value :: "js_int64 \<Rightarrow> int" where
  "int64_value (AsNumber n) = n"
| "int64_value (AsLong n) = n"

definition strict_not_zero :: "js_int64 \<Rightarrow> bool" where
  "strict_not_zero v = (v \<noteq> AsNumber 0)"

text \<open>
  Modelled from the spec: the types of the decoded messages. The protobuf schema files
  (protos/gnss_synchro.proto, protos/monitor_pvt.proto) are not part of the sources. The
  decoded messages are records of the fields that the handlers read. The names that the
  handlers use are those of the schema of GNSS-SDR, in which the sampling rate \<open>fs\<close> is
  a 64-bit integer and the strength \<open>cn0_db_hz\<close> a double. A decoder (the protobufjs
  library) is a parameter that returns the message or throws an error with a text.
\<close>

record monitor_pvt =
  week :: int
  towAtCurrentSymbolMs :: int
  rxTime :: real
  latitude :: real
  longitude :: real
  height :: real
  posX :: real
  posY :: real
  posZ :: real
  velX :: real
  velY :: real
  velZ :: real
  velE :: real
  velN :: real
  velU :: real
  validSats :: int
  solutionStatus :: int
  solutionType :: int
  gdop :: real
  pdop :: real
  hdop :: real
  vdop :: real

record gnss_synchro =
  system :: string
  signal :: string
  channelId :: int
  prn :: int
  cn0DbHz :: js_number
  carrierDopplerHz :: real
  fs :: js_int64

record observables =
  observable :: "gnss_synchro list"

type_synonym buffer = "8 word list"

type_synonym 'a decoder = "buffer \<Rightarrow> string + 'a"

text \<open>The object built by \<open>handlePvtUdp\<close> (server/udp_handlers.js).\<close>

record pvt_msg =
  type :: string
  timestamp :: string
  week :: int
  tow_ms :: int
  rx_time :: real
  lat :: real
  lon :: real
  height :: real
  pos_x :: real
  pos_y :: real
  pos_z :: real
  vel_x :: real
  vel_y :: real
  vel_z :: real
  vel_e :: real
  vel_n :: real
  vel_u :: real
  valid_sats :: int
  solution_status :: int
  solution_type :: int
  gdop :: real
  pdop :: real
  hdop :: real
  vdop :: real

text \<open>The object built for each kept entry by \<open>handleObsUdp\<close>.\<close>

record obs_sample =
  type :: string
  timestamp :: string
  system :: string
  signal :: string
  channel_id :: int
  prn :: int
  cn0_db_hz :: js_number
  doppler_hz :: real

text \<open>
  What \<open>updateLatestObservables\<close> stores: \<open>{...s, _received_at: now}\<close>. The field
  \<open>_received_at\<close> is written \<open>received_at\<close>.
\<close>

record stored_sample = obs_sample +
  received_at :: int

definition with_received_at :: "obs_sample \<Rightarrow> int \<Rightarrow> stored_sample" where
  "with_received_at s now = obs_sample.extend s \<lparr> received_at = now \<rparr>"

section \<open>server/state.js\<close>

definition TTL_MS :: int where
  "TTL_MS = 5000"

text \<open>
  The module variable \<open>latest\<close>. \<open>obs_by_channel\<close> is a JavaScript \<open>Map\<close>: it iterates
  in insertion order and \<open>set\<close> on a key that is present replaces the value in place, so it
  is an association list updated with \<^const>\<open>AList.update\<close>.
\<close>

record latest =
  pvt :: "pvt_msg option"
  pvt_timestamp :: int
  obs_by_channel :: "(int \<times> stored_sample) list"
  obs_last_update_ms :: int

definition latest_init :: latest where
  "latest_init = \<lparr> pvt = None, pvt_timestamp = 0, obs_by_channel = [], obs_last_update_ms = 0 \<rparr>"

definition setLatestPvt :: "int \<Rightarrow> pvt_msg \<Rightarrow> latest \<Rightarrow> latest" where
  "setLatestPvt now msg st = st \<lparr> pvt := Some msg, pvt_timestamp := now \<rparr>"

text \<open>
  \<open>samples\<close> is always an array here, and every \<^typ>\<open>obs_sample\<close> is an object whose
  \<open>channel_id\<close> is a number, so both guards of the source hold.
\<close>

definition updateLatestObservables :: "int \<Rightarrow> obs_sample list \<Rightarrow> latest \<Rightarrow> latest" where
  "updateLatestObservables now samples st =
     st \<lparr> obs_by_channel :=
            fold (\<lambda>s m. AList.update (channel_id s) (with_received_at s now) m)
              samples (obs_by_channel st),
          obs_last_update_ms := now \<rparr>"

definition getLatestPvt :: "int \<Rightarrow> latest \<Rightarrow> pvt_msg option" where
  "getLatestPvt now st =
     (if pvt st = None \<or> now - pvt_timestamp st > TTL_MS then None else pvt st)"

text \<open>
  \<open>Array.prototype.sort\<close> with a comparison function is a stable sort: an element goes
  after another when their comparison is positive, a comparison that gives NaN counts as 0,
  and elements that compare as equal keep their order. \<open>insert_by\<close> puts \<open>x\<close>, which
  stood before every element of the sorted list, in front of the first element it does not
  have to follow. Where the comparison function is not consistent, which a NaN among the
  strengths makes it, the language leaves the order to the implementation, and
  \<open>array_sort\<close> is one such order.
\<close>

fun insert_by :: "('a \<Rightarrow> 'a \<Rightarrow> js_number) \<Rightarrow> 'a \<Rightarrow> 'a list \<Rightarrow> 'a list" where
  "insert_by cmp x [] = [x]"
| "insert_by cmp x (y # ys) =
     (if js_less (Finite 0) (cmp x y) then y # insert_by cmp x ys else x # y # ys)"

fun array_sort :: "('a \<Rightarrow> 'a \<Rightarrow> js_number) \<Rightarrow> 'a list \<Rightarrow> 'a list" where
  "array_sort cmp [] = []"
| "array_sort cmp (x # xs) = insert_by cmp x (array_sort cmp xs)"

text \<open>The comparison function \<open>(a, b) => (b.cn0_db_hz ?? 0) - (a.cn0_db_hz ?? 0)\<close>;
  \<open>cn0_db_hz\<close> is a number, so \<open>??\<close> keeps it.\<close>

definition by_cn0_desc :: "stored_sample \<Rightarrow> stored_sample \<Rightarrow> js_number" where
  "by_cn0_desc a b = js_minus (cn0_db_hz b) (cn0_db_hz a)"

text \<open>
  \<open>xs.slice(0, limit)\<close>: the end is truncated towards zero, a negative end counts from the
  end of the array, and the result is clamped to the array.
\<close>

definition to_integer :: "real \<Rightarrow> int" where
  "to_integer r = (if r < 0 then \<lceil>r\<rceil> else \<lfloor>r\<rfloor>)"

definition slice0 :: "'a list \<Rightarrow> real \<Rightarrow> 'a list" where
  "slice0 xs limit =
     (let e = to_integer limit; n = int (length xs);
          final = (if e < 0 then max (n + e) 0 else min e n)
      in take (nat final) xs)"

definition is_recent :: "int \<Rightarrow> int \<times> stored_sample \<Rightarrow> bool" where
  "is_recent now e = (now - received_at (snd e) < TTL_MS)"

text \<open>
  \<open>getLatestObservables({ limit = 64 } = {})\<close>: \<open>None\<close> is a call without a limit. The
  loop keeps the recent entries and deletes the others from the map while it iterates, which
  a \<open>Map\<close> allows; the result is the list and the state after the deletions.
\<close>

definition getLatestObservables ::
  "real option \<Rightarrow> int \<Rightarrow> latest \<Rightarrow> stored_sample list \<times> latest" where
  "getLatestObservables limit_arg now st =
     (let limit = (case limit_arg of None \<Rightarrow> 64 | Some l \<Rightarrow> l);
          kept = filter (is_recent now) (obs_by_channel st);
          activeObs = array_sort by_cn0_desc (map snd kept);
          st' = st \<lparr> obs_by_channel := kept \<rparr>
      in (if limit \<noteq> 0 then slice0 activeObs limit else activeObs, st'))"

record meta =
  count :: nat
  pvt_age_ms :: int
  obs_age_ms :: int
  is_live :: bool

definition getLatestObservablesMeta :: "int \<Rightarrow> latest \<Rightarrow> meta" where
  "getLatestObservablesMeta now st =
     \<lparr> count = length (obs_by_channel st),
       pvt_age_ms = now - pvt_timestamp st,
       obs_age_ms = now - obs_last_update_ms st,
       is_live = (now - pvt_timestamp st < TTL_MS) \<rparr>"

section \<open>server/websocket.js\<close>

text \<open>
  A client socket of the ws library, which is not part of the sources: its ready state, what
  \<open>send\<close> does (\<open>Some m\<close>: it throws an error with message \<open>m\<close>; \<open>None\<close>: it takes the
  data), and the data it has taken so far. \<open>JSON.stringify(obj)\<close> is represented by
  the object itself.
\<close>

datatype ready_state = CONNECTING | OPEN | CLOSING | CLOSED

datatype ws_data = PvtData pvt_msg | ObsData "obs_sample list"

record ws_client =
  readyState :: ready_state
  send_error :: "string option"
  sent :: "ws_data list"

definition ws_send :: "ws_client \<Rightarrow> ws_data \<Rightarrow> string + ws_client" where
  "ws_send ws data =
     (case send_error ws of
        Some m \<Rightarrow> Inl m
      | None \<Rightarrow> Inr (ws \<lparr> sent := sent ws @ [data] \<rparr>))"

text \<open>
  The server process: the state of server/state.js, the module variable \<open>wss\<close>
  (\<open>None\<close> is \<open>null\<close>; \<open>Some cs\<close> is a server whose set \<open>clients\<close> iterates as \<open>cs\<close>),
  and the lines written with \<open>console.error\<close>. A function that can throw returns
  \<open>Inl\<close> of the error text.
\<close>

record world =
  state :: latest
  wss :: "ws_client list option"
  console :: "string list"

text \<open>The callback of \<open>wss.clients.forEach\<close> in \<open>broadcast\<close>, with its try and catch.\<close>

definition send_to ::
  "ws_data \<Rightarrow> ws_client \<Rightarrow> string list \<Rightarrow> string + (ws_client \<times> string list)" where
  "send_to data ws con =
     (if readyState ws = OPEN then
        (case ws_send ws data of
           Inr ws' \<Rightarrow> Inr (ws', con)
         | Inl m \<Rightarrow> Inr (ws, con @ [''WS send error: '' @ m]))
      else Inr (ws, con))"

text \<open>\<open>forEach\<close> stops at the first callback that throws and throws its error.\<close>

fun forEach ::
  "(ws_client \<Rightarrow> string list \<Rightarrow> string + (ws_client \<times> string list)) \<Rightarrow>
   ws_client list \<Rightarrow> string list \<Rightarrow> string + (ws_client list \<times> string list)" where
  "forEach f [] con = Inr ([], con)"
| "forEach f (ws # rest) con =
     (case f ws con of
        Inl e \<Rightarrow> Inl e
      | Inr (ws', con') \<Rightarrow>
          (case forEach f rest con' of
             Inl e \<Rightarrow> Inl e
           | Inr (rest', con'') \<Rightarrow> Inr (ws' # rest', con'')))"

definition broadcast :: "ws_data \<Rightarrow> world \<Rightarrow> string + world" where
  "broadcast obj w =
     (case wss w of
        None \<Rightarrow> Inr w
      | Some clients \<Rightarrow>
          (case forEach (send_to obj) clients (console w) of
             Inl e \<Rightarrow> Inl e
           | Inr (clients', con') \<Rightarrow> Inr (w \<lparr> wss := Some clients', console := con' \<rparr>)))"

section \<open>server/udp_handlers.js\<close>

text \<open>
  The handlers take the module variable that holds the message type (\<open>None\<close> until the
  schema is loaded), the text of \<open>new Date().toISOString()\<close>, the value of the
  \<open>Date.now()\<close> read by the state module, and the datagram.
\<close>

definition to_sample :: "string \<Rightarrow> gnss_synchro \<Rightarrow> obs_sample" where
  "to_sample ts s =
     \<lparr> type = ''observables'',
       timestamp = ts,
       system = gnss_synchro.system s,
       signal = gnss_synchro.signal s,
       channel_id = channelId s,
       prn = gnss_synchro.prn s,
       cn0_db_hz = cn0DbHz s,
       doppler_hz = carrierDopplerHz s \<rparr>"

definition handleObsUdp ::
  "observables decoder option \<Rightarrow> string \<Rightarrow> int \<Rightarrow> buffer \<Rightarrow> world \<Rightarrow> string + world" where
  "handleObsUdp ObservablesMsg ts now buf w =
     (case ObservablesMsg of
        None \<Rightarrow> Inr w
      | Some T \<Rightarrow>
          (case T buf of
             Inl e \<Rightarrow> Inr (w \<lparr> console := console w @ [''OBS decode error: '' @ e] \<rparr>)
           | Inr obs \<Rightarrow>
               (let samples = map (to_sample ts) (filter (\<lambda>s. strict_not_zero (fs s)) (observable obs))
                in if length samples \<noteq> 0
                   then broadcast (ObsData samples)
                          (w \<lparr> state := updateLatestObservables now samples (state w) \<rparr>)
                   else Inr w)))"

definition to_pvt_msg :: "string \<Rightarrow> monitor_pvt \<Rightarrow> pvt_msg" where
  "to_pvt_msg ts p =
     \<lparr> pvt_msg.type = ''pvt'',
       pvt_msg.timestamp = ts,
       week = monitor_pvt.week p,
       tow_ms = towAtCurrentSymbolMs p,
       rx_time = rxTime p,
       lat = latitude p,
       lon = longitude p,
       height = monitor_pvt.height p,
       pos_x = posX p,
       pos_y = posY p,
       pos_z = posZ p,
       vel_x = velX p,
       vel_y = velY p,
       vel_z = velZ p,
       vel_e = velE p,
       vel_n = velN p,
       vel_u = velU p,
       valid_sats = validSats p,
       solution_status = solutionStatus p,
       solution_type = solutionType p,
       gdop = monitor_pvt.gdop p,
       pdop = monitor_pvt.pdop p,
       hdop = monitor_pvt.hdop p,
       vdop = monitor_pvt.vdop p \<rparr>"

definition handlePvtUdp ::
  "monitor_pvt decoder option \<Rightarrow> string \<Rightarrow> int \<Rightarrow> buffer \<Rightarrow> world \<Rightarrow> string + world" where
  "handlePvtUdp MonitorPvtMsg ts now buf w =
     (case MonitorPvtMsg of
        None \<Rightarrow> Inr w
      | Some T \<Rightarrow>
          (case T buf of
             Inl e \<Rightarrow> Inr (w \<lparr> console := console w @ [''PVT decode error: '' @ e] \<rparr>)
           | Inr p \<Rightarrow>
               (let msg = to_pvt_msg ts p
                in broadcast (PvtData msg) (w \<lparr> state := setLatestPvt now msg (state w) \<rparr>))))"

text \<open>
  The two sockets of \<open>initUdpReceivers\<close>: a datagram on the observables port goes to
  \<open>handleObsUdp\<close>, one on the PVT port to \<open>handlePvtUdp\<close>. Each datagram comes with the
  two clock readings of its handler. A handler that throws ends the run.
\<close>

datatype datagram = OnObs string int buffer | OnPvt string int buffer

record message_types =
  ObservablesMsg :: "observables decoder option"
  MonitorPvtMsg :: "monitor_pvt decoder option"

fun on_message :: "message_types \<Rightarrow> datagram \<Rightarrow> world \<Rightarrow> string + world" where
  "on_message T (OnObs ts now buf) w = handleObsUdp (ObservablesMsg T) ts now buf w"
| "on_message T (OnPvt ts now buf) w = handlePvtUdp (MonitorPvtMsg T) ts now buf w"

fun receive_all :: "message_types \<Rightarrow> datagram list \<Rightarrow> world \<Rightarrow> string + world" where
  "receive_all T [] w = Inr w"
| "receive_all T (d # ds) w =
     (case on_message T d w of Inl e \<Rightarrow> Inl e | Inr w' \<Rightarrow> receive_all T ds w')"

definition decode_fails :: "message_types \<Rightarrow> datagram \<Rightarrow> bool" where
  "decode_fails T d =
     (case d of
        OnObs ts now buf \<Rightarrow>
          (case ObservablesMsg T of None \<Rightarrow> False | Some D \<Rightarrow> isl (D buf))
      | OnPvt ts now buf \<Rightarrow>
          (case MonitorPvtMsg T of None \<Rightarrow> False | Some D \<Rightarrow> isl (D buf)))"

section \<open>server/server.js\<close>

text \<open>
  \<open>Number(req.query.limit ?? 64)\<close>: the query parameter is absent or a string, and the
  conversion of a string to a number is the parameter \<open>Number_of\<close>.
\<close>

record observables_response =
  ok :: bool
  meta :: meta
  observables :: "stored_sample list"

text \<open>The two state functions read the clock one after the other: \<open>now1\<close>, then \<open>now2\<close>.\<close>

definition api_latest_observables ::
  "(string \<Rightarrow> js_number) \<Rightarrow> string option \<Rightarrow> int \<Rightarrow> int \<Rightarrow> latest \<Rightarrow>
   observables_response \<times> latest" where
  "api_latest_observables Number_of query_limit now1 now2 st =
     (let limit = (case query_limit of None \<Rightarrow> Finite 64 | Some s \<Rightarrow> Number_of s);
          (obs, st') = getLatestObservables
                         (Some (case limit of Finite r \<Rightarrow> r | _ \<Rightarrow> 64)) now1 st;
          meta = getLatestObservablesMeta now2 st'
      in (\<lparr> ok = True, meta = meta, observables = obs \<rparr>, st'))"

text \<open>The number that the route passes to \<open>getLatestObservables\<close> as \<open>limit\<close>.\<close>

definition query_limit_value :: "(string \<Rightarrow> js_number) \<Rightarrow> string option \<Rightarrow> real" where
  "query_limit_value Number_of query_limit =
     (case (case query_limit of None \<Rightarrow> Finite 64 | Some s \<Rightarrow> Number_of s) of
        Finite r \<Rightarrow> r | _ \<Rightarrow> 64)"

section \<open>Notions used to state the properties\<close>

text \<open>
  The calls that the rest of the server makes into server/state.js, and the state that a
  sequence of such calls leaves. Only three of the five functions write.
\<close>

datatype store_op =
    SetLatestPvt int pvt_msg
  | UpdateLatestObservables int "obs_sample list"
  | GetLatestPvt int
  | GetLatestObservables "real option" int
  | GetLatestObservablesMeta int

fun apply_op :: "store_op \<Rightarrow> latest \<Rightarrow> latest" where
  "apply_op (SetLatestPvt now msg) st = setLatestPvt now msg st"
| "apply_op (UpdateLatestObservables now samples) st = updateLatestObservables now samples st"
| "apply_op (GetLatestPvt now) st = st"
| "apply_op (GetLatestObservables limit now) st = snd (getLatestObservables limit now st)"
| "apply_op (GetLatestObservablesMeta now) st = st"

text \<open>The keys of the map are pairwise different and each entry sits under its own channel.\<close>

definition store_inv :: "latest \<Rightarrow> bool" where
  "store_inv st =
     (distinct (map fst (obs_by_channel st)) \<and>
      list_all (\<lambda>e. channel_id (snd e) = fst e) (obs_by_channel st))"

text \<open>
  The specification's count of currently fresh channels: the entries whose age is below the
  TTL at the time \<open>now\<close>, whether evicted or not.
\<close>

definition fresh_count :: "int \<Rightarrow> latest \<Rightarrow> nat" where
  "fresh_count now st = length (filter (is_recent now) (obs_by_channel st))"

text \<open>
  What one round of the loop of \<open>broadcast\<close> leaves of a client, and the lines that a
  whole loop writes to the console.
\<close>

definition deliver :: "ws_data \<Rightarrow> ws_client \<Rightarrow> ws_client" where
  "deliver data ws =
     (if readyState ws = OPEN \<and> send_error ws = None
      then ws \<lparr> sent := sent ws @ [data] \<rparr> else ws)"

definition send_errors :: "ws_client list \<Rightarrow> string list" where
  "send_errors cs =
     concat (map (\<lambda>ws. if readyState ws = OPEN
                        then (case send_error ws of
                                None \<Rightarrow> [] | Some m \<Rightarrow> [''WS send error: '' @ m])
                        else []) cs)"

section \<open>Concrete inputs\<close>

definition example_pvt :: "int \<Rightarrow> int \<Rightarrow> monitor_pvt" where
  "example_pvt sats status =
     \<lparr> monitor_pvt.week = 2400, towAtCurrentSymbolMs = 0, rxTime = 0,
       latitude = 0, longitude = 0, monitor_pvt.height = 0,
       posX = 0, posY = 0, posZ = 0, velX = 0, velY = 0, velZ = 0,
       velE = 0, velN = 0, velU = 0,
       validSats = sats, solutionStatus = status, solutionType = 0,
       monitor_pvt.gdop = 0, monitor_pvt.pdop = 0, monitor_pvt.hdop = 0,
       monitor_pvt.vdop = 0 \<rparr>"

definition example_fix :: "int \<Rightarrow> int \<Rightarrow> pvt_msg" where
  "example_fix sats status = to_pvt_msg ''T0'' (example_pvt sats status)"

definition example_entry :: "int \<Rightarrow> js_number \<Rightarrow> js_int64 \<Rightarrow> gnss_synchro" where
  "example_entry ch cn0 rate =
     \<lparr> gnss_synchro.system = ''G'', gnss_synchro.signal = ''1C'', channelId = ch,
       gnss_synchro.prn = 1, cn0DbHz = cn0, carrierDopplerHz = 0, fs = rate \<rparr>"

definition example_sample :: "int \<Rightarrow> real \<Rightarrow> obs_sample" where
  "example_sample ch cn0 = to_sample ''T0'' (example_entry ch (Finite cn0) (AsLong 4000000))"

definition example_nan_sample :: "int \<Rightarrow> obs_sample" where
  "example_nan_sample ch = to_sample ''T0'' (example_entry ch NaN (AsLong 4000000))"

definition example_Number :: "string \<Rightarrow> js_number" where
  "example_Number s = (if s = ''0'' then Finite 0 else if s = ''1'' then Finite 1 else NaN)"

definition example_client :: "string option \<Rightarrow> ws_client" where
  "example_client err = \<lparr> readyState = OPEN, send_error = err, sent = [] \<rparr>"

definition example_world :: world where
  "example_world =
     \<lparr> state = latest_init,
       wss = Some [example_client (Some ''socket gone''), example_client None],
       console = [] \<rparr>"

definition example_decode_obs :: "observables decoder" where
  "example_decode_obs buf =
     (if buf = [1]
      then Inr \<lparr> observable = [example_entry 5 (Finite 42.3) (AsLong 4000000)] \<rparr>
      else if buf = [2]
      then Inr \<lparr> observable = [example_entry 5 (Finite 0) (AsNumber 0)] \<rparr>
      else if buf = [3]
      then Inr \<lparr> observable = [example_entry 5 (Finite 0) (AsLong 0)] \<rparr>
      else Inl ''index out of range'')"

definition example_decode_pvt :: "monitor_pvt decoder" where
  "example_decode_pvt buf =
     (if buf = [1] then Inr (example_pvt 6 4) else Inl ''index out of range'')"

definition example_types :: message_types where
  "example_types =
     \<lparr> ObservablesMsg = Some example_decode_obs, MonitorPvtMsg = Some example_decode_pvt \<rparr>"

text \<open>The process after the datagram \<open>[1]\<close> on the observables port at time 0.\<close>

definition example_world_A :: world where
  "example_world_A =
     \<lparr> state = updateLatestObservables 0
                 [to_sample ''T0'' (example_entry 5 (Finite 42.3) (AsLong 4000000))] latest_init,
       wss = Some [example_client (Some ''socket gone''),
                   (example_client None)
                     \<lparr> sent := [ObsData [to_sample ''T0''
                                          (example_entry 5 (Finite 42.3) (AsLong 4000000))]] \<rparr>],
       console = [''WS send error: socket gone''] \<rparr>"

text \<open>The process after the datagram \<open>[3]\<close> on the observables port at time 1000.\<close>

definition example_world_B :: world where
  "example_world_B =
     \<lparr> state = updateLatestObservables 1000
                 [to_sample ''T1'' (example_entry 5 (Finite 0) (AsLong 0))]
                 (state example_world_A),
       wss = Some [example_client (Some ''socket gone''),
                   (example_client None)
                     \<lparr> sent := [ObsData [to_sample ''T0''
                                          (example_entry 5 (Finite 42.3) (AsLong 4000000))],
                                ObsData [to_sample ''T1''
                                          (example_entry 5 (Finite 0) (AsLong 0))]] \<rparr>],
       console = [''WS send error: socket gone'', ''WS send error: socket gone''] \<rparr>"

section \<open>Facts about the model\<close>

lemmas eval_defs =
  example_fix_def example_pvt_def example_entry_def example_sample_def
  example_nan_sample_def strict_not_zero_def to_pvt_msg_def
  to_sample_def latest_init_def setLatestPvt_def updateLatestObservables_def getLatestPvt_def
  getLatestObservables_def getLatestObservablesMeta_def TTL_MS_def is_recent_def
  by_cn0_desc_def slice0_def to_integer_def with_received_at_def obs_sample.defs
  fresh_count_def Let_def

lemma with_received_at_simps:
  "received_at (with_received_at s now) = now"
  "channel_id (with_received_at s now) = channel_id s"
  "cn0_db_hz (with_received_at s now) = cn0_db_hz s"
  by (simp_all add: with_received_at_def obs_sample.defs)

subsection \<open>The sort and the slice\<close>

lemma set_insert_by: "set (insert_by cmp x xs) = insert x (set xs)"
  by (induction xs) auto

lemma set_array_sort: "set (array_sort cmp xs) = set xs"
  by (induction xs) (simp_all add: set_insert_by)

lemma length_insert_by: "length (insert_by cmp x xs) = Suc (length xs)"
  by (induction xs) auto

lemma length_array_sort: "length (array_sort cmp xs) = length xs"
  by (induction xs) (simp_all add: length_insert_by)

lemma distinct_map_insert_by:
  "distinct (map f (insert_by cmp x xs)) = (f x \<notin> f ` set xs \<and> distinct (map f xs))"
  by (induction xs) (auto simp: set_insert_by)

lemma distinct_map_array_sort:
  "distinct (map f (array_sort cmp xs)) = distinct (map f xs)"
  by (induction xs) (simp_all add: distinct_map_insert_by set_array_sort)

lemma js_less_minus: "js_less (Finite 0) (js_minus y x) = js_less x y"
  by (cases x; cases y) simp_all

lemma js_less_irrefl: "\<not> js_less x x"
  by (cases x) simp_all

lemma js_not_less: "x \<noteq> NaN \<Longrightarrow> y \<noteq> NaN \<Longrightarrow> (\<not> js_less x y) = js_le y x"
  by (cases x; cases y) auto

lemma js_less_le: "js_less x y \<Longrightarrow> js_le x y"
  by (cases x; cases y) auto

lemma js_le_trans: "js_le x y \<Longrightarrow> js_le y z \<Longrightarrow> js_le x z"
  by (cases x; cases y; cases z) auto

lemma insert_by_cn0:
  "insert_by by_cn0_desc x (y # ys) =
     (if js_less (cn0_db_hz x) (cn0_db_hz y) then y # insert_by by_cn0_desc x ys
      else x # y # ys)"
  by (simp add: by_cn0_desc_def js_less_minus)

lemma sorted_insert_by:
  "sorted_wrt (\<lambda>a b. js_le (cn0_db_hz b) (cn0_db_hz a)) xs \<Longrightarrow>
   cn0_db_hz x \<noteq> NaN \<Longrightarrow> \<forall>y \<in> set xs. cn0_db_hz y \<noteq> NaN \<Longrightarrow>
   sorted_wrt (\<lambda>a b. js_le (cn0_db_hz b) (cn0_db_hz a)) (insert_by by_cn0_desc x xs)"
proof (induction xs)
  case Nil
  then show ?case by simp
next
  case (Cons y ys)
  show ?case
  proof (cases "js_less (cn0_db_hz x) (cn0_db_hz y)")
    case True
    have "js_le (cn0_db_hz x) (cn0_db_hz y)"
      using True by (rule js_less_le)
    moreover have "sorted_wrt (\<lambda>a b. js_le (cn0_db_hz b) (cn0_db_hz a)) (insert_by by_cn0_desc x ys)"
      using Cons by simp
    ultimately show ?thesis
      using True Cons.prems(1) by (simp add: insert_by_cn0 set_insert_by del: insert_by.simps)
  next
    case False
    then have xy: "js_le (cn0_db_hz y) (cn0_db_hz x)"
      using Cons.prems by (simp add: js_not_less)
    have "js_le (cn0_db_hz z) (cn0_db_hz x)" if "z \<in> set ys" for z
    proof -
      have "js_le (cn0_db_hz z) (cn0_db_hz y)"
        using Cons.prems(1) that by simp
      then show ?thesis
        using xy by (rule js_le_trans)
    qed
    then show ?thesis
      using False xy Cons.prems(1) by (simp add: insert_by_cn0 del: insert_by.simps)
  qed
qed

lemma sorted_array_sort:
  "\<forall>s \<in> set xs. cn0_db_hz s \<noteq> NaN \<Longrightarrow>
   sorted_wrt (\<lambda>a b. js_le (cn0_db_hz b) (cn0_db_hz a)) (array_sort by_cn0_desc xs)"
  by (induction xs) (simp_all add: sorted_insert_by set_array_sort)

lemma filter_insert_by:
  "filter (\<lambda>s. cn0_db_hz s = c) (insert_by by_cn0_desc x xs) =
     (if cn0_db_hz x = c then x # filter (\<lambda>s. cn0_db_hz s = c) xs
      else filter (\<lambda>s. cn0_db_hz s = c) xs)"
  by (induction xs) (auto simp: insert_by_cn0 js_less_irrefl simp del: insert_by.simps(2))

lemma array_sort_stable:
  "filter (\<lambda>s. cn0_db_hz s = c) (array_sort by_cn0_desc xs) = filter (\<lambda>s. cn0_db_hz s = c) xs"
  by (induction xs) (simp_all add: filter_insert_by)

lemma slice0_take: "\<exists>n. slice0 xs l = take n xs"
  by (auto simp: slice0_def Let_def)

lemma slice0_all: "real (length xs) \<le> l \<Longrightarrow> slice0 xs l = xs"
  by (auto simp: slice0_def Let_def to_integer_def le_floor_iff)

subsection \<open>The per-channel map\<close>

lemma distinct_keys_update:
  "distinct (map fst (AList.update k v al)) = distinct (map fst al)"
  by (induction al) (auto simp: dom_update image_iff)

lemma keys_update_fold:
  "distinct (map fst
     (fold (\<lambda>s m. AList.update (channel_id s) (with_received_at s now) m) samples al))
     = distinct (map fst al)"
  by (induction samples arbitrary: al) (simp_all add: distinct_keys_update)

lemma list_all_update:
  "list_all P al \<Longrightarrow> P (k, v) \<Longrightarrow> list_all P (AList.update k v al)"
  by (induction al) auto

lemma keyed_update_fold:
  "list_all (\<lambda>e. channel_id (snd e) = fst e) al \<Longrightarrow>
   list_all (\<lambda>e. channel_id (snd e) = fst e)
     (fold (\<lambda>s m. AList.update (channel_id s) (with_received_at s now) m) samples al)"
  by (induction samples arbitrary: al) (simp_all add: list_all_update with_received_at_simps)

lemma update_in_set: "(k, v) \<in> set (AList.update k v al)"
  by (induction al) auto

lemma update_keeps_other:
  "(k, v) \<in> set al \<Longrightarrow> k' \<noteq> k \<Longrightarrow> (k, v) \<in> set (AList.update k' v' al)"
  by (induction al) auto

lemma fold_update_keeps:
  "(k, v) \<in> set al \<Longrightarrow> k \<notin> channel_id ` set samples \<Longrightarrow>
   (k, v) \<in> set (fold (\<lambda>s m. AList.update (channel_id s) (with_received_at s now) m) samples al)"
  by (induction samples arbitrary: al) (auto simp: update_keeps_other)

lemma fold_update_records:
  "channel_id s \<notin> channel_id ` set later \<Longrightarrow>
   (channel_id s, with_received_at s now) \<in>
     set (fold (\<lambda>s m. AList.update (channel_id s) (with_received_at s now) m)
            (earlier @ s # later) al)"
  by (simp add: fold_update_keeps update_in_set)

lemma recorded_in_store:
  "channel_id s \<notin> channel_id ` set later \<Longrightarrow>
   (channel_id s, with_received_at s now) \<in>
     set (obs_by_channel (updateLatestObservables now (earlier @ s # later) st))"
  using fold_update_records [of s later now earlier "obs_by_channel st"]
  by (simp add: updateLatestObservables_def)

lemma set_update_subset: "set (AList.update k v al) \<subseteq> insert (k, v) (set al)"
  by (induction al) auto

lemma fold_update_subset:
  "set (fold (\<lambda>s m. AList.update (channel_id s) (with_received_at s now) m) samples al)
     \<subseteq> set al \<union> (\<lambda>s. (channel_id s, with_received_at s now)) ` set samples"
proof (induction samples arbitrary: al)
  case Nil
  then show ?case by simp
next
  case (Cons a samples)
  have "set (fold (\<lambda>s m. AList.update (channel_id s) (with_received_at s now) m) samples
               (AList.update (channel_id a) (with_received_at a now) al))
        \<subseteq> set (AList.update (channel_id a) (with_received_at a now) al)
            \<union> (\<lambda>s. (channel_id s, with_received_at s now)) ` set samples"
    by (rule Cons.IH)
  then show ?case
    using set_update_subset [of "channel_id a" "with_received_at a now" al] by auto
qed

lemma map_of_fold_update_other:
  "k \<notin> channel_id ` set samples \<Longrightarrow>
   map_of (fold (\<lambda>s m. AList.update (channel_id s) (with_received_at s now) m) samples al) k
     = map_of al k"
  by (induction samples arbitrary: al) (simp_all add: update_conv')

subsection \<open>The invariant of the store\<close>

lemma store_inv_init: "store_inv latest_init"
  by (simp add: store_inv_def latest_init_def)

lemma store_inv_setLatestPvt: "store_inv (setLatestPvt now msg st) = store_inv st"
  by (simp add: store_inv_def setLatestPvt_def)

lemma store_inv_updateLatestObservables:
  "store_inv st \<Longrightarrow> store_inv (updateLatestObservables now samples st)"
  by (simp add: store_inv_def updateLatestObservables_def keys_update_fold keyed_update_fold)

lemma obs_getLatestObservables:
  "obs_by_channel (snd (getLatestObservables limit now st)) =
     filter (is_recent now) (obs_by_channel st)"
  by (simp add: getLatestObservables_def Let_def)

lemma store_inv_getLatestObservables:
  "store_inv st \<Longrightarrow> store_inv (snd (getLatestObservables limit now st))"
  by (simp add: store_inv_def obs_getLatestObservables distinct_map_filter list_all_iff)

lemma store_inv_apply_op: "store_inv st \<Longrightarrow> store_inv (apply_op op st)"
  by (cases op)
     (simp_all add: store_inv_setLatestPvt store_inv_updateLatestObservables
        store_inv_getLatestObservables)

lemma store_inv_fold: "store_inv st \<Longrightarrow> store_inv (fold apply_op ops st)"
  by (induction ops arbitrary: st) (simp_all add: store_inv_apply_op)

subsection \<open>The snapshot of the observables\<close>

lemma fst_getLatestObservables_take:
  "\<exists>n. fst (getLatestObservables limit now st) =
     take n (array_sort by_cn0_desc (map snd (filter (is_recent now) (obs_by_channel st))))"
proof (cases "(case limit of None \<Rightarrow> 64 | Some l \<Rightarrow> l) = (0::real)")
  case True
  then have "fst (getLatestObservables limit now st) =
      take (length (obs_by_channel st))
        (array_sort by_cn0_desc (map snd (filter (is_recent now) (obs_by_channel st))))"
    by (simp add: getLatestObservables_def Let_def length_array_sort)
  then show ?thesis by blast
next
  case False
  then show ?thesis
    using slice0_take by (simp add: getLatestObservables_def Let_def)
qed

lemma set_getLatestObservables_subset:
  "set (fst (getLatestObservables limit now st)) \<subseteq>
     snd ` set (filter (is_recent now) (obs_by_channel st))"
proof -
  obtain n where "fst (getLatestObservables limit now st) =
     take n (array_sort by_cn0_desc (map snd (filter (is_recent now) (obs_by_channel st))))"
    using fst_getLatestObservables_take by blast
  then have "set (fst (getLatestObservables limit now st)) \<subseteq>
     set (array_sort by_cn0_desc (map snd (filter (is_recent now) (obs_by_channel st))))"
    by (simp add: set_take_subset)
  then show ?thesis by (simp add: set_array_sort)
qed

lemma fst_getLatestObservables_all:
  assumes "(case limit of None \<Rightarrow> 64 | Some l \<Rightarrow> l) = 0 \<or>
           real (fresh_count now st) \<le> (case limit of None \<Rightarrow> 64 | Some l \<Rightarrow> l)"
  shows "fst (getLatestObservables limit now st) =
     array_sort by_cn0_desc (map snd (filter (is_recent now) (obs_by_channel st)))"
  using assms
  by (auto simp: getLatestObservables_def Let_def fresh_count_def slice0_all length_array_sort)

lemma api_latest_observables_eq:
  "api_latest_observables Number_of query_limit now1 now2 st =
     (\<lparr> ok = True,
        meta = getLatestObservablesMeta now2
                 (snd (getLatestObservables (Some (query_limit_value Number_of query_limit)) now1 st)),
        observables =
          fst (getLatestObservables (Some (query_limit_value Number_of query_limit)) now1 st) \<rparr>,
      snd (getLatestObservables (Some (query_limit_value Number_of query_limit)) now1 st))"
  by (simp add: api_latest_observables_def query_limit_value_def Let_def split: prod.split)

subsection \<open>The broadcast and the handlers\<close>

lemma forEach_send_to:
  "forEach (send_to d) cs con = Inr (map (deliver d) cs, con @ send_errors cs)"
  by (induction cs arbitrary: con)
     (auto simp: send_to_def ws_send_def deliver_def send_errors_def split: option.splits)

lemma broadcast_eq:
  "broadcast d w =
     Inr (w \<lparr> wss := map_option (map (deliver d)) (wss w),
              console := console w @ send_errors (case wss w of None \<Rightarrow> [] | Some cs \<Rightarrow> cs) \<rparr>)"
  by (cases "wss w") (simp_all add: broadcast_def forEach_send_to send_errors_def)

lemma on_message_total: "\<exists>w'. on_message T d w = Inr w'"
  by (cases d)
     (simp_all add: handleObsUdp_def handlePvtUdp_def broadcast_eq Let_def
        split: option.split sum.split)

lemma on_message_console:
  assumes "on_message T d w = Inr w'" and "on_message T d (w \<lparr> console := c \<rparr>) = Inr v'"
  shows "state v' = state w' \<and> wss v' = wss w'"
  using assms
  by (cases d)
     (auto simp: handleObsUdp_def handlePvtUdp_def broadcast_eq Let_def
        split: option.splits sum.splits if_splits)

lemma receive_all_total: "\<exists>w'. receive_all T ds w = Inr w'"
proof (induction ds arbitrary: w)
  case Nil
  show ?case by simp
next
  case (Cons d ds)
  obtain w1 where "on_message T d w = Inr w1"
    using on_message_total by blast
  then show ?case
    using Cons.IH [of w1] by simp
qed

lemma receive_all_console:
  "receive_all T ds w = Inr w' \<Longrightarrow> receive_all T ds (w \<lparr> console := c \<rparr>) = Inr v' \<Longrightarrow>
   state v' = state w' \<and> wss v' = wss w'"
proof (induction ds arbitrary: w c)
  case Nil
  then show ?case by auto
next
  case (Cons d ds)
  obtain w1 where w1: "on_message T d w = Inr w1"
    using on_message_total by blast
  obtain v1 where v1: "on_message T d (w \<lparr> console := c \<rparr>) = Inr v1"
    using on_message_total by blast
  have "state v1 = state w1 \<and> wss v1 = wss w1"
    using w1 v1 by (rule on_message_console)
  then have "v1 = w1 \<lparr> console := console v1 \<rparr>"
    by simp
  then have "receive_all T ds (w1 \<lparr> console := console v1 \<rparr>) = Inr v'"
    using Cons.prems(2) v1 by simp
  moreover have "receive_all T ds w1 = Inr w'"
    using Cons.prems(1) w1 by simp
  ultimately show ?case
    using Cons.IH by blast
qed

lemma receive_all_append:
  "receive_all T (xs @ ys) w =
     (case receive_all T xs w of Inl e \<Rightarrow> Inl e | Inr w' \<Rightarrow> receive_all T ys w')"
  by (induction xs arbitrary: w) (simp_all split: sum.split)

lemma decode_fails_drop:
  "decode_fails T d \<Longrightarrow> \<exists>line. on_message T d w = Inr (w \<lparr> console := console w @ [line] \<rparr>)"
  by (cases d)
     (auto simp: decode_fails_def handleObsUdp_def handlePvtUdp_def isl_def
        split: option.splits)

subsection \<open>The filter of the observables handler\<close>

text \<open>
  What the filter does for the entries whose \<open>fs\<close> is the number 0: a batch of such
  entries changes nothing, a channel for which the batch has only such entries keeps its
  stored sample, and no such entry reaches a snapshot or a socket.
\<close>

lemma number_zero_entries_are_discarded:
  assumes "D buf = Inr obs"
  shows "\<exists>w'. handleObsUdp (Some D) ts now buf w = Inr w' \<and>
     ((\<forall>e \<in> set (observable obs). fs e = AsNumber 0) \<longrightarrow> w' = w) \<and>
     (\<forall>ch. (\<forall>e \<in> set (observable obs). channelId e = ch \<longrightarrow> fs e = AsNumber 0) \<longrightarrow>
        map_of (obs_by_channel (state w')) ch = map_of (obs_by_channel (state w)) ch) \<and>
     (\<forall>x \<in> set (fst (getLatestObservables limit now' (state w'))).
        x \<in> snd ` set (obs_by_channel (state w)) \<or>
        (\<exists>e \<in> set (observable obs). fs e \<noteq> AsNumber 0 \<and> x = with_received_at (to_sample ts e) now)) \<and>
     (wss w' = wss w \<or>
      wss w' = map_option
        (map (\<lambda>ws. if readyState ws = OPEN \<and> send_error ws = None
                   then ws \<lparr> sent := sent ws @
                     [ObsData (map (to_sample ts) (filter (\<lambda>e. fs e \<noteq> AsNumber 0) (observable obs)))] \<rparr>
                   else ws))
        (wss w))"
proof -
  let ?nz = "filter (\<lambda>e. fs e \<noteq> AsNumber 0) (observable obs)"
  let ?samples = "map (to_sample ts) ?nz"
  have snap: "set (fst (getLatestObservables limit now' s)) \<subseteq> snd ` set (obs_by_channel s)" for s
    using set_getLatestObservables_subset [of limit now' s] by auto
  show ?thesis
  proof (cases "?nz = []")
    case True
    then have "handleObsUdp (Some D) ts now buf w = Inr w"
      using assms by (simp add: handleObsUdp_def Let_def strict_not_zero_def)
    then show ?thesis
      using snap [of "state w"] by auto
  next
    case False
    let ?w' = "w \<lparr> state := updateLatestObservables now ?samples (state w),
                   wss := map_option (map (deliver (ObsData ?samples))) (wss w),
                   console := console w @ send_errors (case wss w of None \<Rightarrow> [] | Some cs \<Rightarrow> cs) \<rparr>"
    have run: "handleObsUdp (Some D) ts now buf w = Inr ?w'"
      using assms False by (simp add: handleObsUdp_def Let_def broadcast_eq strict_not_zero_def)
    have c1: "(\<forall>e \<in> set (observable obs). fs e = AsNumber 0) \<longrightarrow> ?w' = w"
      using False by (auto simp: filter_empty_conv)
    have c2: "map_of (obs_by_channel (state ?w')) ch = map_of (obs_by_channel (state w)) ch"
      if "\<forall>e \<in> set (observable obs). channelId e = ch \<longrightarrow> fs e = AsNumber 0" for ch
    proof -
      have "ch \<notin> channel_id ` set ?samples"
        using that by (auto simp: to_sample_def)
      then show ?thesis
        by (simp add: updateLatestObservables_def map_of_fold_update_other)
    qed
    have c3: "x \<in> snd ` set (obs_by_channel (state w)) \<or>
        (\<exists>e \<in> set (observable obs). fs e \<noteq> AsNumber 0 \<and> x = with_received_at (to_sample ts e) now)"
      if "x \<in> set (fst (getLatestObservables limit now' (state ?w')))" for x
    proof -
      have "x \<in> snd ` set (obs_by_channel (state ?w'))"
        using that snap by blast
      then obtain k where
        "(k, x) \<in> set (obs_by_channel (updateLatestObservables now ?samples (state w)))"
        by auto
      then have "(k, x) \<in> set (obs_by_channel (state w)) \<union>
           (\<lambda>s. (channel_id s, with_received_at s now)) ` set ?samples"
        using fold_update_subset [of now ?samples "obs_by_channel (state w)"]
        by (auto simp: updateLatestObservables_def)
      then show ?thesis
        by force
    qed
    have c4: "wss ?w' = map_option
        (map (\<lambda>ws. if readyState ws = OPEN \<and> send_error ws = None
                   then ws \<lparr> sent := sent ws @ [ObsData ?samples] \<rparr>
                   else ws))
        (wss w)"
      by (simp add: deliver_def [abs_def])
    show ?thesis
      using run c1 c2 c3 c4 by (intro exI [of _ ?w']) blast
  qed
qed


lemma number_zero_scenario:
  "handleObsUdp (Some example_decode_obs) ''T0'' 0 [1] example_world = Inr example_world_A \<and>
   handleObsUdp (Some example_decode_obs) ''T1'' 1000 [2] example_world_A = Inr example_world_A"
  by (simp add: handleObsUdp_def example_decode_obs_def example_entry_def Let_def broadcast_eq
        example_world_def example_world_A_def example_client_def deliver_def send_errors_def
        strict_not_zero_def)

section \<open>The claims\<close>

subsection \<open>C1: staleness\<close>

text \<open>
  Claim C1, as stated, says that a sample recorded at \<open>t\<close> is in the snapshot taken at
  \<open>t + TTL - \<epsilon>\<close>. With a limit of 1 and two channels recorded at time 0, the snapshot
  taken at time \<open>0 + TTL - 4999\<close> leaves the weaker channel out although it is 1 ms old.
\<close>

theorem fresh_sample_cut_by_limit_counterexample:
  "(0::int) < 4999 \<and>
   with_received_at (example_sample 3 30) 0 \<notin>
     set (fst (getLatestObservables (Some 1) (0 + TTL_MS - 4999)
            (updateLatestObservables 0 [example_sample 7 40, example_sample 3 30] latest_init)))"
  by (simp add: eval_defs)

text \<open>
  Claim C1, amended. For every \<open>\<epsilon> > 0\<close>: a PVT fix recorded at \<open>t\<close> is not returned at
  \<open>t + TTL + \<epsilon>\<close> and is returned at \<open>t + TTL - \<epsilon>\<close>; a stale fix gives \<open>None\<close>
  (\<open>null\<close>), the value that the store gives when no fix was ever received; an observable
  sample recorded at \<open>t\<close> is in no snapshot taken at \<open>t + TTL + \<epsilon>\<close>, whatever the limit;
  and a sample that is the last of its channel in the batch recorded at \<open>t\<close> is in the
  snapshot taken at \<open>t + TTL - \<epsilon>\<close> when the limit does not cut the result, that is when
  the limit is 0 or at least the number of fresh channels.
\<close>

theorem staleness_of_snapshots:
  assumes "0 < eps"
  shows "getLatestPvt (t + TTL_MS + eps) (setLatestPvt t m st) = None \<and>
    getLatestPvt (t + TTL_MS - eps) (setLatestPvt t m st) = Some m \<and>
    getLatestPvt now latest_init = None \<and>
    with_received_at s t \<notin>
      set (fst (getLatestObservables limit (t + TTL_MS + eps)
                 (updateLatestObservables t samples st))) \<and>
    (channel_id s \<notin> channel_id ` set later \<and>
     ((case limit of None \<Rightarrow> 64 | Some l \<Rightarrow> l) = 0 \<or>
      real (fresh_count (t + TTL_MS - eps)
              (updateLatestObservables t (earlier @ s # later) st))
        \<le> (case limit of None \<Rightarrow> 64 | Some l \<Rightarrow> l)) \<longrightarrow>
     with_received_at s t \<in>
       set (fst (getLatestObservables limit (t + TTL_MS - eps)
                  (updateLatestObservables t (earlier @ s # later) st))))"
proof (intro conjI impI)
  show "getLatestPvt (t + TTL_MS + eps) (setLatestPvt t m st) = None"
    using assms by (simp add: getLatestPvt_def setLatestPvt_def)
  show "getLatestPvt (t + TTL_MS - eps) (setLatestPvt t m st) = Some m"
    using assms by (simp add: getLatestPvt_def setLatestPvt_def)
  show "getLatestPvt now latest_init = None"
    by (simp add: getLatestPvt_def latest_init_def)
  show "with_received_at s t \<notin>
      set (fst (getLatestObservables limit (t + TTL_MS + eps)
                 (updateLatestObservables t samples st)))"
  proof
    assume "with_received_at s t \<in>
      set (fst (getLatestObservables limit (t + TTL_MS + eps)
                 (updateLatestObservables t samples st)))"
    then have "with_received_at s t \<in> snd ` set (filter (is_recent (t + TTL_MS + eps))
                 (obs_by_channel (updateLatestObservables t samples st)))"
      using set_getLatestObservables_subset by blast
    then have "t + TTL_MS + eps - received_at (with_received_at s t) < TTL_MS"
      by (auto simp: is_recent_def)
    then show False
      using assms by (simp add: with_received_at_simps)
  qed
next
  let ?st1 = "updateLatestObservables t (earlier @ s # later) st"
  let ?now = "t + TTL_MS - eps"
  assume h: "channel_id s \<notin> channel_id ` set later \<and>
     ((case limit of None \<Rightarrow> 64 | Some l \<Rightarrow> l) = 0 \<or>
      real (fresh_count ?now ?st1) \<le> (case limit of None \<Rightarrow> 64 | Some l \<Rightarrow> l))"
  then have "(channel_id s, with_received_at s t) \<in> set (obs_by_channel ?st1)"
    by (simp add: recorded_in_store)
  moreover have "is_recent ?now (channel_id s, with_received_at s t)"
    using assms by (simp add: is_recent_def with_received_at_simps)
  ultimately have "with_received_at s t \<in> snd ` set (filter (is_recent ?now) (obs_by_channel ?st1))"
    by force
  moreover have "fst (getLatestObservables limit ?now ?st1) =
      array_sort by_cn0_desc (map snd (filter (is_recent ?now) (obs_by_channel ?st1)))"
    using h by (intro fst_getLatestObservables_all) blast
  ultimately show "with_received_at s t \<in> set (fst (getLatestObservables limit ?now ?st1))"
    by (simp add: set_array_sort)
qed

theorem staleness_of_snapshots_witness:
  "(0::int) < 1 \<and>
   channel_id (example_sample 3 30) \<notin> channel_id ` set [] \<and>
   real (fresh_count (0 + TTL_MS - 1)
          (updateLatestObservables 0 ([example_sample 7 40] @ example_sample 3 30 # [])
             latest_init)) \<le> 64 \<and>
   getLatestPvt (0 + TTL_MS + 1) (setLatestPvt 0 (example_fix 6 4) latest_init) = None \<and>
   getLatestPvt (0 + TTL_MS - 1) (setLatestPvt 0 (example_fix 6 4) latest_init)
     = Some (example_fix 6 4) \<and>
   with_received_at (example_sample 3 30) 0 \<notin>
     set (fst (getLatestObservables None (0 + TTL_MS + 1)
       (updateLatestObservables 0 ([example_sample 7 40] @ example_sample 3 30 # [])
          latest_init))) \<and>
   with_received_at (example_sample 3 30) 0 \<in>
     set (fst (getLatestObservables None (0 + TTL_MS - 1)
       (updateLatestObservables 0 ([example_sample 7 40] @ example_sample 3 30 # [])
          latest_init)))"
proof -
  have e: "(0::int) < 1" by simp
  have a: "channel_id (example_sample 3 30) \<notin> channel_id ` set []" by simp
  have f: "real (fresh_count (0 + TTL_MS - 1)
          (updateLatestObservables 0 ([example_sample 7 40] @ example_sample 3 30 # [])
             latest_init)) \<le> 64"
    by (simp add: eval_defs)
  show ?thesis
    using staleness_of_snapshots [OF e, of 0 "example_fix 6 4" latest_init 0
        "example_sample 3 30" None "[example_sample 7 40] @ example_sample 3 30 # []"
        "[]" "[example_sample 7 40]"] a f
    by simp
qed

subsection \<open>C2: a datagram that does not decode\<close>

text \<open>
  Claim C2. A datagram whose decoding throws leaves the process as it was except for one
  line on the console: the state store and the sockets, with what each socket was sent, are
  unchanged. A run in which such a datagram arrives between other datagrams ends with the
  same store and the same sockets as the run without it, and neither run throws.
\<close>

theorem decode_failure_is_isolated:
  assumes "decode_fails T bad"
  shows "(\<exists>line. on_message T bad w = Inr (w \<lparr> console := console w @ [line] \<rparr>)) \<and>
    (\<exists>wa wb. receive_all T (pre @ bad # post) w = Inr wa \<and>
             receive_all T (pre @ post) w = Inr wb \<and>
             state wa = state wb \<and> wss wa = wss wb)"
proof
  show "\<exists>line. on_message T bad w = Inr (w \<lparr> console := console w @ [line] \<rparr>)"
    using assms by (rule decode_fails_drop)
next
  obtain w1 where w1: "receive_all T pre w = Inr w1"
    using receive_all_total by blast
  obtain line where line: "on_message T bad w1 = Inr (w1 \<lparr> console := console w1 @ [line] \<rparr>)"
    using assms decode_fails_drop by blast
  obtain wa where wa: "receive_all T post (w1 \<lparr> console := console w1 @ [line] \<rparr>) = Inr wa"
    using receive_all_total by blast
  obtain wb where wb: "receive_all T post w1 = Inr wb"
    using receive_all_total by blast
  have "state wa = state wb \<and> wss wa = wss wb"
    using wb wa by (rule receive_all_console)
  moreover have "receive_all T (pre @ bad # post) w = Inr wa"
    using w1 line wa by (simp add: receive_all_append)
  moreover have "receive_all T (pre @ post) w = Inr wb"
    using w1 wb by (simp add: receive_all_append)
  ultimately show "\<exists>wa wb. receive_all T (pre @ bad # post) w = Inr wa \<and>
             receive_all T (pre @ post) w = Inr wb \<and>
             state wa = state wb \<and> wss wa = wss wb"
    by blast
qed

theorem decode_failure_is_isolated_witness:
  "decode_fails example_types (OnPvt ''T1'' 500 []) \<and>
   (\<exists>line. on_message example_types (OnPvt ''T1'' 500 []) example_world
        = Inr (example_world \<lparr> console := console example_world @ [line] \<rparr>)) \<and>
   (\<exists>wa wb. receive_all example_types
               ([OnObs ''T0'' 0 [1]] @ OnPvt ''T1'' 500 [] # [OnPvt ''T2'' 1000 [1]]) example_world
               = Inr wa \<and>
            receive_all example_types ([OnObs ''T0'' 0 [1]] @ [OnPvt ''T2'' 1000 [1]]) example_world
               = Inr wb \<and>
            state wa = state wb \<and> wss wa = wss wb)"
proof -
  have h: "decode_fails example_types (OnPvt ''T1'' 500 [])"
    by (simp add: decode_fails_def example_types_def example_decode_pvt_def)
  show ?thesis
    using h decode_failure_is_isolated
      [OF h, of example_world "[OnObs ''T0'' 0 [1]]" "[OnPvt ''T2'' 1000 [1]]"]
    by simp
qed

subsection \<open>C3: entries with sampling rate zero\<close>

text \<open>
  Claim C3 fails on the code. The handler drops an entry when \<open>s.fs !== 0\<close> is false,
  which is so for the number 0 only. The sampling rate is a 64-bit field, which protobufjs
  hands over as a \<open>Long\<close> object, and an object is never strictly equal to 0. Datagram A
  (channel 5, 42.3 dB-Hz, rate 4000000) at time 0 and datagram B (channel 5, 0 dB-Hz,
  rate 0) at 1000 ms: the handler records B over A and sends B to the sockets, and the
  snapshot at 1100 ms has channel 5 with 0 dB-Hz.
\<close>

theorem zero_rate_long_entry_is_recorded:
  "int64_value (fs (example_entry 5 (Finite 0) (AsLong 0))) = 0 \<and>
   handleObsUdp (Some example_decode_obs) ''T0'' 0 [1] example_world = Inr example_world_A \<and>
   handleObsUdp (Some example_decode_obs) ''T1'' 1000 [3] example_world_A = Inr example_world_B \<and>
   map (\<lambda>x. (channel_id x, cn0_db_hz x, received_at x))
     (fst (getLatestObservables None 1100 (state example_world_B))) = [(5, Finite 0, 1000)] \<and>
   map sent (the (wss example_world_B)) =
     [[],
      [ObsData [to_sample ''T0'' (example_entry 5 (Finite 42.3) (AsLong 4000000))],
       ObsData [to_sample ''T1'' (example_entry 5 (Finite 0) (AsLong 0))]]]"
proof -
  have a: "handleObsUdp (Some example_decode_obs) ''T0'' 0 [1] example_world = Inr example_world_A"
    by (simp add: handleObsUdp_def example_decode_obs_def example_entry_def Let_def broadcast_eq
          example_world_def example_world_A_def example_client_def deliver_def send_errors_def
          strict_not_zero_def)
  have b: "handleObsUdp (Some example_decode_obs) ''T1'' 1000 [3] example_world_A
             = Inr example_world_B"
    by (simp add: handleObsUdp_def example_decode_obs_def example_entry_def Let_def broadcast_eq
          example_world_A_def example_world_B_def example_client_def deliver_def send_errors_def
          strict_not_zero_def)
  have s: "map (\<lambda>x. (channel_id x, cn0_db_hz x, received_at x))
     (fst (getLatestObservables None 1100 (state example_world_B))) = [(5, Finite 0, 1000)]"
    by (simp add: example_world_B_def example_world_A_def eval_defs)
  have p: "map sent (the (wss example_world_B)) =
     [[],
      [ObsData [to_sample ''T0'' (example_entry 5 (Finite 42.3) (AsLong 4000000))],
       ObsData [to_sample ''T1'' (example_entry 5 (Finite 0) (AsLong 0))]]]"
    by (simp add: example_world_B_def example_client_def)
  show ?thesis
    using a b s p by (simp add: example_entry_def)
qed

subsection \<open>C4: one PVT slot, one entry per channel\<close>

text \<open>
  Claim C4. The PVT slot is a single optional value. After any sequence of calls from the
  initial state the keys of the per-channel map are pairwise different. After two
  \<open>setLatestPvt\<close> in a row \<open>getLatestPvt\<close> returns the second fix or nothing, never the
  first. After samples for channel 3, channel 3 again and channel 7, a snapshot taken while
  the last two are fresh has exactly two entries: the second sample of channel 3 and the
  sample of channel 7, the stronger first.
\<close>

theorem store_single_slot_and_channel_keys:
  "distinct (map fst (obs_by_channel (fold apply_op ops latest_init))) \<and>
   getLatestPvt now (setLatestPvt t2 m2 (setLatestPvt t1 m1 st)) =
     (if now - t2 > TTL_MS then None else Some m2) \<and>
   (channel_id a = 3 \<and> channel_id b = 3 \<and> channel_id c = 7 \<and>
    now - t2 < TTL_MS \<and> now - t3 < TTL_MS \<longrightarrow>
    fst (getLatestObservables None now
          (updateLatestObservables t3 [c]
            (updateLatestObservables t2 [b]
              (updateLatestObservables t1 [a] latest_init)))) =
      (if js_less (cn0_db_hz b) (cn0_db_hz c)
       then [with_received_at c t3, with_received_at b t2]
       else [with_received_at b t2, with_received_at c t3]))"
proof (intro conjI impI)
  have "store_inv (fold apply_op ops latest_init)"
    by (rule store_inv_fold) (rule store_inv_init)
  then show "distinct (map fst (obs_by_channel (fold apply_op ops latest_init)))"
    by (simp add: store_inv_def)
next
  show "getLatestPvt now (setLatestPvt t2 m2 (setLatestPvt t1 m1 st)) =
     (if now - t2 > TTL_MS then None else Some m2)"
    by (simp add: getLatestPvt_def setLatestPvt_def)
next
  assume h: "channel_id a = 3 \<and> channel_id b = 3 \<and> channel_id c = 7 \<and>
    now - t2 < TTL_MS \<and> now - t3 < TTL_MS"
  then have store: "obs_by_channel (updateLatestObservables t3 [c]
            (updateLatestObservables t2 [b]
              (updateLatestObservables t1 [a] latest_init))) =
       [(3, with_received_at b t2), (7, with_received_at c t3)]"
    by (simp add: updateLatestObservables_def latest_init_def)
  from h show "fst (getLatestObservables None now
          (updateLatestObservables t3 [c]
            (updateLatestObservables t2 [b]
              (updateLatestObservables t1 [a] latest_init)))) =
      (if js_less (cn0_db_hz b) (cn0_db_hz c)
       then [with_received_at c t3, with_received_at b t2]
       else [with_received_at b t2, with_received_at c t3])"
    by (simp add: getLatestObservables_def Let_def store is_recent_def
          with_received_at_simps by_cn0_desc_def js_less_minus slice0_def to_integer_def)
qed

theorem store_single_slot_and_channel_keys_witness:
  "channel_id (example_sample 3 40) = 3 \<and> channel_id (example_sample 3 41) = 3 \<and>
   channel_id (example_sample 7 45) = 7 \<and>
   (3000::int) - 1000 < TTL_MS \<and> (3000::int) - 2000 < TTL_MS \<and>
   map channel_id (fst (getLatestObservables None 3000
          (updateLatestObservables 2000 [example_sample 7 45]
            (updateLatestObservables 1000 [example_sample 3 41]
              (updateLatestObservables 0 [example_sample 3 40] latest_init))))) = [7, 3]"
  using store_single_slot_and_channel_keys
    [of "[]" 3000 1000 "example_fix 6 4" 0 "example_fix 3 0" latest_init
        "example_sample 3 40" "example_sample 3 41" "example_sample 7 45" 2000]
  by (simp add: example_sample_def example_entry_def to_sample_def TTL_MS_def
        with_received_at_simps)

subsection \<open>C5: the liveness flag\<close>

text \<open>
  Claim C5, as stated, says that the summary reports \<open>is_live = false\<close> after a fix with
  \<open>valid_sats = 3\<close> and \<open>solution_status = 0\<close>. The summary taken when that fix has just
  been recorded reports \<open>is_live = true\<close>.
\<close>

theorem is_live_ignores_fix_quality_counterexample:
  "is_live (getLatestObservablesMeta 1000 (setLatestPvt 1000 (example_fix 3 0) latest_init))
   \<and> valid_sats (example_fix 3 0) = 3 \<and> solution_status (example_fix 3 0) = 0"
  by (simp add: eval_defs)

text \<open>
  Claim C5, amended. After any fix recorded at \<open>t\<close>, the summary taken at \<open>now\<close> reports
  \<open>is_live\<close> exactly when \<open>now - t < TTL\<close>; the contents of the fix play no part.
\<close>

theorem is_live_is_pvt_freshness:
  "is_live (getLatestObservablesMeta now (setLatestPvt t msg st)) = (now - t < TTL_MS)"
  by (simp add: getLatestObservablesMeta_def setLatestPvt_def)

subsection \<open>C6: the count of the summary\<close>

text \<open>
  Claim C6, as stated, says that \<open>count\<close> is the number of fresh channels. A sample
  recorded at time 0 and not read since is counted at time 10000, when no channel is fresh.
\<close>

theorem meta_count_counterexample:
  "count (getLatestObservablesMeta 10000
            (updateLatestObservables 0 [example_sample 1 40] latest_init)) = 1 \<and>
   fresh_count 10000 (updateLatestObservables 0 [example_sample 1 40] latest_init) = 0"
  by (simp add: eval_defs)

text \<open>
  Claim C6, amended. \<open>count\<close> is the number of entries in the per-channel map, stale
  entries that no read has evicted included, so it is never below the number of fresh
  channels; in a summary taken after a snapshot, as the route for the current observables
  does, it is the number of channels that were fresh at the time of the snapshot.
\<close>

theorem meta_count_is_map_size:
  "count (getLatestObservablesMeta now st) = length (obs_by_channel st) \<and>
   fresh_count now st \<le> count (getLatestObservablesMeta now st) \<and>
   count (getLatestObservablesMeta now' (snd (getLatestObservables limit now st))) =
     fresh_count now st \<and>
   count (meta (fst (api_latest_observables Number_of query_limit now now' st))) =
     fresh_count now st"
  by (simp add: getLatestObservablesMeta_def fresh_count_def obs_getLatestObservables
        api_latest_observables_eq)

subsection \<open>C7: the order of a snapshot\<close>

text \<open>
  Claim C7, as stated, says that every snapshot is sorted by descending strength and that
  entries of equal strength are ordered by channel id. Two channels of equal strength come
  out as 7, 3 when channel 7 stands first in the map and as 3, 7 when channel 3 does. With
  the strengths 10, NaN and 30 in the map, every comparison with the NaN gives NaN, which
  the sort takes for 0, and the snapshot has 10 in front of 30.
\<close>

theorem tie_order_counterexample:
  "map channel_id (fst (getLatestObservables None 100
     (updateLatestObservables 0 [example_sample 7 40, example_sample 3 40] latest_init))) = [7, 3] \<and>
   map channel_id (fst (getLatestObservables None 100
     (updateLatestObservables 0 [example_sample 3 40, example_sample 7 40] latest_init))) = [3, 7] \<and>
   map cn0_db_hz (fst (getLatestObservables None 100
     (updateLatestObservables 0 [example_sample 1 10, example_nan_sample 2, example_sample 3 30]
        latest_init))) = [Finite 10, NaN, Finite 30]"
  by (simp add: eval_defs)

text \<open>
  Claim C7, amended. When no fresh entry has NaN for its strength, the snapshot, from
  \<open>getLatestObservables\<close> and in the response of the route, is sorted by descending
  \<open>cn0_db_hz\<close>, and entries of equal \<open>cn0_db_hz\<close> keep the order in which they stand
  in the per-channel map: the entries of one strength in the result are a prefix of the
  fresh entries of that strength in the order of the map. The channel id plays no part.
\<close>

theorem snapshot_sorted_by_cn0_stable:
  assumes "\<forall>e \<in> set (obs_by_channel st). is_recent now e \<longrightarrow> cn0_db_hz (snd e) \<noteq> NaN"
  shows "sorted_wrt (\<lambda>a b. js_le (cn0_db_hz b) (cn0_db_hz a))
       (fst (getLatestObservables limit now st)) \<and>
   prefix (filter (\<lambda>s. cn0_db_hz s = c) (fst (getLatestObservables limit now st)))
          (filter (\<lambda>s. cn0_db_hz s = c) (map snd (filter (is_recent now) (obs_by_channel st)))) \<and>
   sorted_wrt (\<lambda>a b. js_le (cn0_db_hz b) (cn0_db_hz a))
     (observables (fst (api_latest_observables Number_of query_limit now now' st))) \<and>
   prefix (filter (\<lambda>s. cn0_db_hz s = c)
            (observables (fst (api_latest_observables Number_of query_limit now now' st))))
          (filter (\<lambda>s. cn0_db_hz s = c) (map snd (filter (is_recent now) (obs_by_channel st))))"
proof -
  let ?fresh = "map snd (filter (is_recent now) (obs_by_channel st))"
  let ?full = "array_sort by_cn0_desc ?fresh"
  have "\<forall>s \<in> set ?fresh. cn0_db_hz s \<noteq> NaN"
    using assms by auto
  then have full: "sorted_wrt (\<lambda>a b. js_le (cn0_db_hz b) (cn0_db_hz a)) ?full"
    by (rule sorted_array_sort)
  have sorted_any: "sorted_wrt (\<lambda>a b. js_le (cn0_db_hz b) (cn0_db_hz a))
      (fst (getLatestObservables l now st))" for l
  proof -
    obtain n where "fst (getLatestObservables l now st) = take n ?full"
      using fst_getLatestObservables_take by blast
    then show ?thesis
      using full by simp
  qed
  have stable_any: "prefix (filter (\<lambda>s. cn0_db_hz s = c) (fst (getLatestObservables l now st)))
          (filter (\<lambda>s. cn0_db_hz s = c) ?fresh)"
    for l
  proof -
    obtain n where n: "fst (getLatestObservables l now st) = take n ?full"
      using fst_getLatestObservables_take by blast
    have "prefix (filter (\<lambda>s. cn0_db_hz s = c) (take n ?full)) (filter (\<lambda>s. cn0_db_hz s = c) ?full)"
      by (rule filter_mono_prefix) (rule take_is_prefix)
    then show ?thesis
      by (simp only: n array_sort_stable)
  qed
  show ?thesis
    by (simp add: api_latest_observables_eq sorted_any stable_any)
qed

theorem snapshot_sorted_by_cn0_stable_witness:
  "cn0_db_hz (example_sample 3 40) \<noteq> NaN \<and> cn0_db_hz (example_sample 7 45) \<noteq> NaN \<and>
   cn0_db_hz (example_sample 5 40) \<noteq> NaN \<and>
   sorted_wrt (\<lambda>a b. js_le (cn0_db_hz b) (cn0_db_hz a))
     (fst (getLatestObservables None 100
        (updateLatestObservables 0 [example_sample 3 40, example_sample 7 45, example_sample 5 40]
           latest_init))) \<and>
   map channel_id (fst (getLatestObservables None 100
        (updateLatestObservables 0 [example_sample 3 40, example_sample 7 45, example_sample 5 40]
           latest_init))) = [7, 3, 5]"
proof -
  let ?st = "updateLatestObservables 0
               [example_sample 3 40, example_sample 7 45, example_sample 5 40] latest_init"
  have h: "\<forall>e \<in> set (obs_by_channel ?st). is_recent 100 e \<longrightarrow> cn0_db_hz (snd e) \<noteq> NaN"
    by (simp add: eval_defs)
  have n: "cn0_db_hz (example_sample 3 40) \<noteq> NaN \<and> cn0_db_hz (example_sample 7 45) \<noteq> NaN \<and>
     cn0_db_hz (example_sample 5 40) \<noteq> NaN"
    by (simp add: eval_defs)
  have m: "map channel_id (fst (getLatestObservables None 100 ?st)) = [7, 3, 5]"
    by (simp add: eval_defs)
  show ?thesis
    using snapshot_sorted_by_cn0_stable [OF h, of None "Finite 40" example_Number None 100] n m
    by blast
qed

subsection \<open>C8: eviction on read\<close>

text \<open>
  Claim C8. After \<open>getLatestObservables\<close> at time \<open>now\<close> every entry of the map whose age
  has reached the TTL is gone, every younger entry is still there, the map is the old map
  restricted to the younger entries, and the PVT slot, its time and the time of the last
  write are as before. When the keys of the map are pairwise different and each entry sits
  under its own channel, which holds after every sequence of calls, no channel occurs twice
  in the result.
\<close>

theorem snapshot_evicts_exactly_stale:
  "(\<forall>e \<in> set (obs_by_channel st). TTL_MS \<le> now - received_at (snd e) \<longrightarrow>
       e \<notin> set (obs_by_channel (snd (getLatestObservables limit now st)))) \<and>
   (\<forall>e \<in> set (obs_by_channel st). now - received_at (snd e) < TTL_MS \<longrightarrow>
       e \<in> set (obs_by_channel (snd (getLatestObservables limit now st)))) \<and>
   obs_by_channel (snd (getLatestObservables limit now st)) =
     filter (\<lambda>e. now - received_at (snd e) < TTL_MS) (obs_by_channel st) \<and>
   pvt (snd (getLatestObservables limit now st)) = pvt st \<and>
   pvt_timestamp (snd (getLatestObservables limit now st)) = pvt_timestamp st \<and>
   obs_last_update_ms (snd (getLatestObservables limit now st)) = obs_last_update_ms st \<and>
   (store_inv st \<longrightarrow> distinct (map channel_id (fst (getLatestObservables limit now st))))"
proof -
  have recent: "is_recent now = (\<lambda>e. now - received_at (snd e) < TTL_MS)"
    by (simp add: is_recent_def fun_eq_iff)
  have obs: "obs_by_channel (snd (getLatestObservables limit now st)) =
     filter (\<lambda>e. now - received_at (snd e) < TTL_MS) (obs_by_channel st)"
    by (simp add: obs_getLatestObservables recent)
  have frame: "pvt (snd (getLatestObservables limit now st)) = pvt st \<and>
   pvt_timestamp (snd (getLatestObservables limit now st)) = pvt_timestamp st \<and>
   obs_last_update_ms (snd (getLatestObservables limit now st)) = obs_last_update_ms st"
    by (simp add: getLatestObservables_def Let_def)
  have once: "distinct (map channel_id (fst (getLatestObservables limit now st)))"
    if inv: "store_inv st"
  proof -
    let ?kept = "filter (is_recent now) (obs_by_channel st)"
    have "map channel_id (map snd ?kept) = map fst ?kept"
      using inv by (auto simp: store_inv_def list_all_iff)
    moreover have "distinct (map fst ?kept)"
      using inv by (simp add: store_inv_def distinct_map_filter)
    ultimately have "distinct (map channel_id (array_sort by_cn0_desc (map snd ?kept)))"
      by (simp only: distinct_map_array_sort)
    moreover obtain n where "fst (getLatestObservables limit now st) =
        take n (array_sort by_cn0_desc (map snd ?kept))"
      using fst_getLatestObservables_take by blast
    ultimately show ?thesis
      by (simp add: take_map [symmetric])
  qed
  show ?thesis
    using obs frame once by auto
qed

theorem snapshot_evicts_exactly_stale_witness:
  "store_inv (updateLatestObservables 4000 [example_sample 7 45]
               (updateLatestObservables 0 [example_sample 3 40] latest_init)) \<and>
   (3, with_received_at (example_sample 3 40) 0) \<in>
      set (obs_by_channel (updateLatestObservables 4000 [example_sample 7 45]
               (updateLatestObservables 0 [example_sample 3 40] latest_init))) \<and>
   TTL_MS \<le> 6000 - received_at (with_received_at (example_sample 3 40) 0) \<and>
   (7, with_received_at (example_sample 7 45) 4000) \<in>
      set (obs_by_channel (updateLatestObservables 4000 [example_sample 7 45]
               (updateLatestObservables 0 [example_sample 3 40] latest_init))) \<and>
   6000 - received_at (with_received_at (example_sample 7 45) 4000) < TTL_MS \<and>
   obs_by_channel (snd (getLatestObservables None 6000
      (updateLatestObservables 4000 [example_sample 7 45]
               (updateLatestObservables 0 [example_sample 3 40] latest_init)))) =
     [(7, with_received_at (example_sample 7 45) 4000)] \<and>
   distinct (map channel_id (fst (getLatestObservables None 6000
      (updateLatestObservables 4000 [example_sample 7 45]
               (updateLatestObservables 0 [example_sample 3 40] latest_init)))))"
  using snapshot_evicts_exactly_stale
    [of "updateLatestObservables 4000 [example_sample 7 45]
               (updateLatestObservables 0 [example_sample 3 40] latest_init)" 6000 None]
  by (simp add: store_inv_def example_sample_def example_entry_def to_sample_def
        updateLatestObservables_def latest_init_def TTL_MS_def with_received_at_simps)

subsection \<open>C9: a send that fails\<close>

text \<open>
  Claim C9, as stated, says that the subscriber whose send failed is removed from the set.
  With two open clients of which the first throws on \<open>send\<close>, \<open>broadcast\<close> returns, the
  second client has the message, one line is on the console, and the first client is still
  in the set.
\<close>

theorem broadcast_keeps_failed_subscriber_counterexample:
  "broadcast (PvtData (example_fix 6 4)) example_world =
     Inr (example_world
            \<lparr> wss := Some [example_client (Some ''socket gone''),
                          (example_client None) \<lparr> sent := [PvtData (example_fix 6 4)] \<rparr>],
              console := [''WS send error: socket gone''] \<rparr>)"
  by (simp add: broadcast_eq example_world_def example_client_def deliver_def send_errors_def)

text \<open>
  Claim C9, amended. \<open>broadcast\<close> never throws. Every client that is open and whose
  \<open>send\<close> does not throw is sent the message, whatever happens with the other clients; a
  client that is not open is skipped; a client whose \<open>send\<close> throws costs one line on the
  console and stays in the set as it was. The set of clients keeps its members.
\<close>

theorem broadcast_isolates_send_failures:
  "broadcast d w =
     Inr (w \<lparr> wss := map_option
                       (map (\<lambda>ws. if readyState ws = OPEN \<and> send_error ws = None
                                  then ws \<lparr> sent := sent ws @ [d] \<rparr> else ws))
                       (wss w),
              console := console w @
                concat (map (\<lambda>ws. if readyState ws = OPEN
                               then (case send_error ws of
                                       None \<Rightarrow> [] | Some m \<Rightarrow> [''WS send error: '' @ m])
                               else [])
                         (case wss w of None \<Rightarrow> [] | Some cs \<Rightarrow> cs)) \<rparr>)"
proof -
  have "deliver d = (\<lambda>ws. if readyState ws = OPEN \<and> send_error ws = None
                          then ws \<lparr> sent := sent ws @ [d] \<rparr> else ws)"
    by (simp add: deliver_def fun_eq_iff)
  then show ?thesis
    by (simp add: broadcast_eq send_errors_def)
qed

subsection \<open>C10: a limit of zero\<close>

text \<open>
  Claim C10. With \<open>limit = 0\<close> the result of \<open>getLatestObservables\<close> is the whole sorted
  list of fresh entries, as many as there are fresh channels; a limit other than 0 slices
  it. A request with \<open>?limit=0\<close>, which \<open>Number\<close> turns into 0, gets the whole list.
\<close>

theorem limit_zero_returns_all:
  "fst (getLatestObservables (Some 0) now st) =
     array_sort by_cn0_desc (map snd (filter (is_recent now) (obs_by_channel st))) \<and>
   length (fst (getLatestObservables (Some 0) now st)) = fresh_count now st \<and>
   (l \<noteq> 0 \<longrightarrow> fst (getLatestObservables (Some l) now st) =
      slice0 (array_sort by_cn0_desc (map snd (filter (is_recent now) (obs_by_channel st)))) l) \<and>
   (Number_of ''0'' = Finite 0 \<longrightarrow>
      observables (fst (api_latest_observables Number_of (Some ''0'') now now' st)) =
        array_sort by_cn0_desc (map snd (filter (is_recent now) (obs_by_channel st))))"
  by (simp add: getLatestObservables_def Let_def length_array_sort fresh_count_def
        api_latest_observables_eq query_limit_value_def)

theorem limit_zero_returns_all_witness:
  "example_Number ''0'' = Finite 0 \<and> (1::real) \<noteq> 0 \<and>
   map channel_id (observables (fst (api_latest_observables example_Number (Some ''0'') 100 100
     (updateLatestObservables 0 [example_sample 3 40, example_sample 7 45] latest_init)))) = [7, 3] \<and>
   map channel_id (fst (getLatestObservables (Some 1) 100
     (updateLatestObservables 0 [example_sample 3 40, example_sample 7 45] latest_init))) = [7]"
  using limit_zero_returns_all
    [of 100 "updateLatestObservables 0 [example_sample 3 40, example_sample 7 45] latest_init"
        1 example_Number 100]
  by (simp add: example_Number_def eval_defs)

end
